theory Spec2Isabelle
  imports Main "HOL-Library.Sublist"
begin

section \<open>The token server: \<^verbatim>\<open>src/token-server/server.js\<close>\<close>

text \<open>
  The program is one script. It builds an Express application, registers three library
  middleware functions and two GET routes on it, in this order,
  \<^verbatim>\<open>
  app.use(cors());
  app.use(express.json());
  app.use(express.static('public'));
  app.get('/', (req, res) => { res.sendFile(path.join(__dirname, 'public', 'index.html')); });
  app.get('/api/get-token', (req, res) => { res.json({ message: ..., url: ... }); });
  app.listen(PORT, () => { console.log(...); ... });
  \<close>
  and starts listening. The script's own code is embedded line by line. The library calls
  it makes (\<^verbatim>\<open>cors\<close>, \<^verbatim>\<open>express.json\<close>, \<^verbatim>\<open>express.static\<close>,
  \<^verbatim>\<open>res.sendFile\<close>, \<^verbatim>\<open>res.json\<close>, the router and \<^verbatim>\<open>app.listen\<close>) are
  not part of the script; they are embedded by what they do with their default options on
  the path a request normally takes. A request is the record of the fields those calls
  read on that path. What lies off it is not represented: a body that the JSON parser
  rejects, cache validators and byte ranges, dotfiles and directories under the static
  root, the text of the framework's error pages.
\<close>

subsection \<open>Requests, responses, the process and its surroundings\<close>

datatype http_method = GET | HEAD | POST | PUT | PATCH | DELETE | OPTIONS

record request =
  req_method :: http_method
  req_path :: string          \<comment> \<open>\<^verbatim>\<open>req.path\<close>: the URL's path, without the query string\<close>
  req_query :: string
  req_origin :: "string option"        \<comment> \<open>the \<^verbatim>\<open>Origin\<close> header\<close>
  req_acr_headers :: "string option"   \<comment> \<open>the \<^verbatim>\<open>Access-Control-Request-Headers\<close> header\<close>
  req_payload :: "string option"       \<comment> \<open>a JSON document sent as the body, if any\<close>
  req_body :: "string option"          \<comment> \<open>\<^verbatim>\<open>req.body\<close>, set by the JSON middleware\<close>

datatype content =
    NoContent
  | JsonObject "(string \<times> string) list"   \<comment> \<open>an object of string-valued keys, in order\<close>
  | FileContent string                      \<comment> \<open>the bytes of a file\<close>
  | DefaultPage nat                         \<comment> \<open>the framework's own page for a status\<close>

record response =
  status :: nat
  headers :: "(string \<times> string) list"
  content :: content

text \<open>
  What a run is started with (\<open>process\<close>) and what it runs in (\<open>world\<close>). The script
  reads \<^verbatim>\<open>__dirname\<close>; \<^verbatim>\<open>express.static('public')\<close> resolves its relative root
  against the working directory. The command line and the environment variables are there
  to be read, and the script reads neither.
\<close>

record process =
  cwd :: string                      \<comment> \<open>\<^verbatim>\<open>process.cwd()\<close>, absolute\<close>
  dirname :: string                  \<comment> \<open>\<^verbatim>\<open>__dirname\<close>, absolute\<close>
  argv :: "string list"
  environ :: "(string \<times> string) list"

record world =
  files :: "string \<rightharpoonup> string"    \<comment> \<open>regular files by absolute path\<close>
  console :: "string list"           \<comment> \<open>the lines written by \<^verbatim>\<open>console.log\<close>\<close>
  busy :: "nat list"                 \<comment> \<open>the TCP ports already bound\<close>

subsection \<open>Strings and paths\<close>

text \<open>\<^verbatim>\<open>`${PORT}`\<close>: the decimal digits of a non-negative integer.\<close>

definition digit_char :: "nat \<Rightarrow> char" where
  "digit_char d = char_of (48 + d)"

fun show_nat :: "nat \<Rightarrow> string" where
  "show_nat n = (if n < 10 then [digit_char n] else show_nat (n div 10) @ [digit_char (n mod 10)])"

declare show_nat.simps [simp del]

fun collapse_slashes :: "string \<Rightarrow> string" where
  "collapse_slashes [] = []"
| "collapse_slashes [c] = [c]"
| "collapse_slashes (c # d # cs) =
     (if c = CHR ''/'' \<and> d = CHR ''/'' then collapse_slashes (d # cs)
      else c # collapse_slashes (d # cs))"

fun intercalate :: "string \<Rightarrow> string list \<Rightarrow> string" where
  "intercalate sep [] = []"
| "intercalate sep [s] = s"
| "intercalate sep (s # t # ss) = s @ sep @ intercalate sep (t # ss)"

text \<open>
  \<^verbatim>\<open>path.join\<close>: the non-empty segments joined by \<^verbatim>\<open>/\<close>, repeated separators made
  one. (The segments joined here have no \<^verbatim>\<open>.\<close> or \<^verbatim>\<open>..\<close> parts to resolve.)
\<close>

definition path_join :: "string list \<Rightarrow> string" where
  "path_join segs = collapse_slashes (intercalate ''/'' (filter (\<lambda>s. s \<noteq> []) segs))"

text \<open>\<^verbatim>\<open>path.resolve(root)\<close> as \<^verbatim>\<open>express.static\<close> calls it: relative to the working directory.\<close>

definition path_resolve :: "process \<Rightarrow> string \<Rightarrow> string" where
  "path_resolve p root = (if root \<noteq> [] \<and> hd root = CHR ''/'' then root else path_join [cwd p, root])"

definition to_lower :: "char \<Rightarrow> char" where
  "to_lower c = (let n = (of_char c :: nat) in if 65 \<le> n \<and> n \<le> 90 then char_of (n + 32) else c)"

definition ends_with_slash :: "string \<Rightarrow> bool" where
  "ends_with_slash s = (s \<noteq> [] \<and> last s = CHR ''/'')"

text \<open>
  How the router matches a route's literal path with its default settings: letter case is
  ignored and one trailing \<^verbatim>\<open>/\<close> is optional.
\<close>

definition path_matches :: "string \<Rightarrow> string \<Rightarrow> bool" where
  "path_matches pat pth =
     (let base = map to_lower (if ends_with_slash pat then butlast pat else pat);
          l = map to_lower pth
      in l = base \<or> l = base @ ''/'')"

subsection \<open>The framework: layers and dispatch\<close>

datatype error = HttpError nat | Thrown string

datatype outcome =
    Next world request response      \<comment> \<open>\<^verbatim>\<open>next()\<close>\<close>
  | Done world response              \<comment> \<open>the response was sent\<close>
  | Fail world error response        \<comment> \<open>\<^verbatim>\<open>next(err)\<close>, or an exception thrown\<close>

type_synonym middleware = "world \<Rightarrow> request \<Rightarrow> response \<Rightarrow> outcome"

datatype layer =
    Use middleware                                   \<comment> \<open>\<^verbatim>\<open>app.use(f)\<close>\<close>
  | Route http_method string middleware                   \<comment> \<open>\<^verbatim>\<open>app.get(path, f)\<close> and the like\<close>
  | OnError "world \<Rightarrow> error \<Rightarrow> request \<Rightarrow> response \<Rightarrow> outcome"
      \<comment> \<open>\<^verbatim>\<open>app.use((err, req, res, next) => ...)\<close>\<close>


text \<open>A GET route also answers HEAD.\<close>

definition route_matches :: "http_method \<Rightarrow> string \<Rightarrow> request \<Rightarrow> bool" where
  "route_matches m pat rq =
     ((req_method rq = m \<or> (m = GET \<and> req_method rq = HEAD)) \<and> path_matches pat (req_path rq))"

text \<open>The body is left out of the answer to a HEAD request.\<close>

definition send :: "request \<Rightarrow> response \<Rightarrow> content \<Rightarrow> response" where
  "send rq rs c = rs\<lparr>content := (if req_method rq = HEAD then NoContent else c)\<rparr>"

text \<open>The final handler: nothing answered (404), or an error nobody handled.\<close>

definition not_found :: "request \<Rightarrow> response \<Rightarrow> response" where
  "not_found rq rs = send rq (rs\<lparr>status := 404\<rparr>) (DefaultPage 404)"

definition error_status :: "error \<Rightarrow> nat" where
  "error_status e =
     (case e of HttpError n \<Rightarrow> (if 400 \<le> n \<and> n < 600 then n else 500) | Thrown msg \<Rightarrow> 500)"

definition default_error :: "error \<Rightarrow> request \<Rightarrow> response \<Rightarrow> response" where
  "default_error e rq rs = send rq (rs\<lparr>status := error_status e\<rparr>) (DefaultPage (error_status e))"

fun run :: "layer list \<Rightarrow> world \<Rightarrow> request \<Rightarrow> response \<Rightarrow> response \<times> world"
  and run_error :: "layer list \<Rightarrow> world \<Rightarrow> error \<Rightarrow> request \<Rightarrow> response \<Rightarrow> response \<times> world"
where
  "run [] w rq rs = (not_found rq rs, w)"
| "run (Use f # ls) w rq rs =
     (case f w rq rs of
        Next w' rq' rs' \<Rightarrow> run ls w' rq' rs'
      | Done w' rs' \<Rightarrow> (rs', w')
      | Fail w' e rs' \<Rightarrow> run_error ls w' e rq rs')"
| "run (Route m pat f # ls) w rq rs =
     (if route_matches m pat rq then
        (case f w rq rs of
           Next w' rq' rs' \<Rightarrow> run ls w' rq' rs'
         | Done w' rs' \<Rightarrow> (rs', w')
         | Fail w' e rs' \<Rightarrow> run_error ls w' e rq rs')
      else run ls w rq rs)"
| "run (OnError h # ls) w rq rs = run ls w rq rs"
| "run_error [] w e rq rs = (default_error e rq rs, w)"
| "run_error (OnError h # ls) w e rq rs =
     (case h w e rq rs of
        Next w' rq' rs' \<Rightarrow> run ls w' rq' rs'
      | Done w' rs' \<Rightarrow> (rs', w')
      | Fail w' e' rs' \<Rightarrow> run_error ls w' e' rq rs')"
| "run_error (Use f # ls) w e rq rs = run_error ls w e rq rs"
| "run_error (Route m pat f # ls) w e rq rs = run_error ls w e rq rs"

subsection \<open>The library middleware, with default options\<close>

text \<open>
  \<^verbatim>\<open>cors()\<close>: any origin is allowed, whatever \<^verbatim>\<open>Origin\<close> says. An OPTIONS request is
  a preflight: it is answered here with 204 and goes no further.
\<close>

definition cors :: middleware where
  "cors w rq rs =
     (if req_method rq = OPTIONS then
        Done w (rs\<lparr>status := 204,
                   headers := headers rs
                     @ [(''Access-Control-Allow-Origin'', ''*''),
                        (''Access-Control-Allow-Methods'', ''GET,HEAD,PUT,PATCH,POST,DELETE''),
                        (''Vary'', ''Access-Control-Request-Headers'')]
                     @ (case req_acr_headers rq of
                          None \<Rightarrow> []
                        | Some h \<Rightarrow> [(''Access-Control-Allow-Headers'', h)])
                     @ [(''Content-Length'', ''0'')]\<rparr>)
      else Next w rq (rs\<lparr>headers := headers rs @ [(''Access-Control-Allow-Origin'', ''*'')]\<rparr>))"

text \<open>\<^verbatim>\<open>express.json()\<close>: the parsed body becomes \<^verbatim>\<open>req.body\<close>.\<close>

definition express_json :: middleware where
  "express_json w rq rs = Next w (rq\<lparr>req_body := req_payload rq\<rparr>) rs"

text \<open>
  \<^verbatim>\<open>express.static(root)\<close>: the root is resolved once, when the middleware is made. A GET
  or HEAD request for a path is answered with the file at that path under the root, a path
  ending in \<^verbatim>\<open>/\<close> with the \<^verbatim>\<open>index.html\<close> there; with no such file, and for the
  other methods, the request goes on.
\<close>

definition static_target :: "string \<Rightarrow> string \<Rightarrow> string" where
  "static_target root pth =
     (if ends_with_slash pth then path_join [root, pth, ''index.html''] else path_join [root, pth])"

definition express_static :: "process \<Rightarrow> string \<Rightarrow> middleware" where
  "express_static p root =
     (let r = path_resolve p root in
      (\<lambda>w rq rs.
         if req_method rq \<noteq> GET \<and> req_method rq \<noteq> HEAD then Next w rq rs
         else (case files w (static_target r (req_path rq)) of
                 None \<Rightarrow> Next w rq rs
               | Some c \<Rightarrow> Done w (send rq rs (FileContent c)))))"

text \<open>\<^verbatim>\<open>res.sendFile(file)\<close>: the file, or the error of a missing file (status 404).\<close>

definition sendFile :: "string \<Rightarrow> middleware" where
  "sendFile file w rq rs =
     (case files w file of
        None \<Rightarrow> Fail w (HttpError 404) rs
      | Some c \<Rightarrow> Done w (send rq rs (FileContent c)))"

text \<open>\<^verbatim>\<open>res.json(obj)\<close>\<close>

definition json :: "(string \<times> string) list \<Rightarrow> middleware" where
  "json obj w rq rs =
     Done w (send rq (rs\<lparr>headers := headers rs @ [(''Content-Type'', ''application/json; charset=utf-8'')]\<rparr>)
               (JsonObject obj))"

subsection \<open>The script\<close>

definition PORT :: nat where
  "PORT = 3000"

definition middleware_layers :: "process \<Rightarrow> layer list" where
  "middleware_layers p = [Use cors, Use express_json, Use (express_static p ''public'')]"

definition root_handler :: "process \<Rightarrow> middleware" where
  "root_handler p = sendFile (path_join [dirname p, ''public'', ''index.html''])"

definition get_token_handler :: middleware where
  "get_token_handler =
     json [(''message'', ''Use the web interface to get your JWT token''),
           (''url'', ''http://localhost:'' @ show_nat PORT)]"

definition route_layers :: "process \<Rightarrow> layer list" where
  "route_layers p = [Route GET ''/'' (root_handler p), Route GET ''/api/get-token'' get_token_handler]"

definition app :: "process \<Rightarrow> layer list" where
  "app p = middleware_layers p @ route_layers p"

definition fresh_response :: response where
  "fresh_response = \<lparr>status = 200, headers = [], content = NoContent\<rparr>"

definition handle :: "process \<Rightarrow> world \<Rightarrow> request \<Rightarrow> response \<times> world" where
  "handle p w rq = run (app p) w rq fresh_response"

fun serve :: "process \<Rightarrow> world \<Rightarrow> request list \<Rightarrow> response list \<times> world" where
  "serve p w [] = ([], w)"
| "serve p w (rq # rqs) =
     (let (rs, w') = handle p w rq; (rss, w'') = serve p w' rqs in (rs # rss, w''))"

subsection \<open>Starting: \<^verbatim>\<open>app.listen(PORT, callback)\<close>\<close>

text \<open>
  The lines are the bytes of the script's string literals (UTF-8: the text is Ukrainian,
  three lines begin with an emoji). The second one is a template literal that splices
  \<^verbatim>\<open>PORT\<close> in; the sixth one spells the port out.
\<close>

definition startup_lines :: "string list" where
  "startup_lines =
     [ [CHR 0xF0, CHR 0x9F, CHR 0x9A, CHR 0x80] @ '' Clerk Token Server ''
         @ [CHR 0xD0, CHR 0xB7, CHR 0xD0, CHR 0xB0, CHR 0xD0, CHR 0xBF, CHR 0xD1, CHR 0x83, CHR 0xD1, CHR 0x89,
            CHR 0xD0, CHR 0xB5, CHR 0xD0, CHR 0xBD, CHR 0xD0, CHR 0xBE] @ ''!'',
       [CHR 0xF0, CHR 0x9F, CHR 0x93, CHR 0xB1] @ '' ''
         @ [CHR 0xD0, CHR 0x92, CHR 0xD1, CHR 0x96, CHR 0xD0, CHR 0xB4, CHR 0xD0, CHR 0xBA, CHR 0xD1, CHR 0x80,
            CHR 0xD0, CHR 0xB8, CHR 0xD0, CHR 0xB9, CHR 0xD1, CHR 0x82, CHR 0xD0, CHR 0xB5]
         @ '': http://localhost:'' @ show_nat PORT,
       [CHR 0xF0, CHR 0x9F, CHR 0x94, CHR 0x91] @ '' ''
         @ [CHR 0xD0, CHR 0x9E, CHR 0xD1, CHR 0x82, CHR 0xD1, CHR 0x80, CHR 0xD0, CHR 0xB8, CHR 0xD0, CHR 0xBC,
            CHR 0xD0, CHR 0xB0, CHR 0xD0, CHR 0xB9, CHR 0xD1, CHR 0x82, CHR 0xD0, CHR 0xB5] @ '' JWT ''
         @ [CHR 0xD1, CHR 0x82, CHR 0xD0, CHR 0xBE, CHR 0xD0, CHR 0xBA, CHR 0xD0, CHR 0xB5, CHR 0xD0, CHR 0xBD] @ '' ''
         @ [CHR 0xD1, CHR 0x87, CHR 0xD0, CHR 0xB5, CHR 0xD1, CHR 0x80, CHR 0xD0, CHR 0xB5, CHR 0xD0, CHR 0xB7] @ '' ''
         @ [CHR 0xD0, CHR 0xB2, CHR 0xD0, CHR 0xB5, CHR 0xD0, CHR 0xB1] @ ''-''
         @ [CHR 0xD1, CHR 0x96, CHR 0xD0, CHR 0xBD, CHR 0xD1, CHR 0x82, CHR 0xD0, CHR 0xB5, CHR 0xD1, CHR 0x80,
            CHR 0xD1, CHR 0x84, CHR 0xD0, CHR 0xB5, CHR 0xD0, CHR 0xB9, CHR 0xD1, CHR 0x81],
       [],
       [CHR 0xD0, CHR 0x86, CHR 0xD0, CHR 0xBD, CHR 0xD1, CHR 0x81, CHR 0xD1, CHR 0x82, CHR 0xD1, CHR 0x80,
        CHR 0xD1, CHR 0x83, CHR 0xD0, CHR 0xBA, CHR 0xD1, CHR 0x86, CHR 0xD1, CHR 0x96, CHR 0xD1, CHR 0x8F] @ '':'',
       ''1. ''
         @ [CHR 0xD0, CHR 0x92, CHR 0xD1, CHR 0x96, CHR 0xD0, CHR 0xB4, CHR 0xD0, CHR 0xBA, CHR 0xD1, CHR 0x80,
            CHR 0xD0, CHR 0xB8, CHR 0xD0, CHR 0xB9, CHR 0xD1, CHR 0x82, CHR 0xD0, CHR 0xB5]
         @ '' http://localhost:3000 '' @ [CHR 0xD1, CHR 0x83] @ '' ''
         @ [CHR 0xD0, CHR 0xB1, CHR 0xD1, CHR 0x80, CHR 0xD0, CHR 0xB0, CHR 0xD1, CHR 0x83, CHR 0xD0, CHR 0xB7,
            CHR 0xD0, CHR 0xB5, CHR 0xD1, CHR 0x80, CHR 0xD1, CHR 0x96],
       ''2. ''
         @ [CHR 0xD0, CHR 0x92, CHR 0xD0, CHR 0xB2, CHR 0xD0, CHR 0xB5, CHR 0xD0, CHR 0xB4, CHR 0xD1, CHR 0x96,
            CHR 0xD1, CHR 0x82, CHR 0xD1, CHR 0x8C] @ '' ''
         @ [CHR 0xD0, CHR 0xB2, CHR 0xD0, CHR 0xB0, CHR 0xD1, CHR 0x88] @ '' Clerk Publishable Key'',
       ''3. ''
         @ [CHR 0xD0, CHR 0xA3, CHR 0xD0, CHR 0xB2, CHR 0xD1, CHR 0x96, CHR 0xD0, CHR 0xB9, CHR 0xD0, CHR 0xB4,
            CHR 0xD1, CHR 0x96, CHR 0xD1, CHR 0x82, CHR 0xD1, CHR 0x8C] @ '' '' @ [CHR 0xD0, CHR 0xB2] @ '' ''
         @ [CHR 0xD1, CHR 0x81, CHR 0xD0, CHR 0xB8, CHR 0xD1, CHR 0x81, CHR 0xD1, CHR 0x82, CHR 0xD0, CHR 0xB5,
            CHR 0xD0, CHR 0xBC, CHR 0xD1, CHR 0x83],
       ''4. ''
         @ [CHR 0xD0, CHR 0xA1, CHR 0xD0, CHR 0xBA, CHR 0xD0, CHR 0xBE, CHR 0xD0, CHR 0xBF, CHR 0xD1, CHR 0x96,
            CHR 0xD1, CHR 0x8E, CHR 0xD0, CHR 0xB9, CHR 0xD1, CHR 0x82, CHR 0xD0, CHR 0xB5] @ '' JWT ''
         @ [CHR 0xD1, CHR 0x82, CHR 0xD0, CHR 0xBE, CHR 0xD0, CHR 0xBA, CHR 0xD0, CHR 0xB5, CHR 0xD0, CHR 0xBD] @ '' ''
         @ [CHR 0xD0, CHR 0xB4, CHR 0xD0, CHR 0xBB, CHR 0xD1, CHR 0x8F] @ '' Postman'' ]"

text \<open>
  Binding fails when the port is taken; the callback runs only once the server listens.
\<close>

datatype started = Listening nat | BindFailed

definition listen :: "nat \<Rightarrow> string list \<Rightarrow> world \<Rightarrow> started \<times> world" where
  "listen port_no callback_lines w =
     (if port_no \<in> set (busy w) then (BindFailed, w)
      else (Listening port_no, w\<lparr>console := console w @ callback_lines, busy := port_no # busy w\<rparr>))"

definition start :: "process \<Rightarrow> world \<Rightarrow> started \<times> world" where
  "start p w = listen PORT startup_lines w"


subsection \<open>Names for the statements\<close>

text \<open>Where \<^verbatim>\<open>express.static('public')\<close> looks for a request path.\<close>

definition public_path :: "process \<Rightarrow> string \<Rightarrow> string" where
  "public_path p pth = static_target (path_resolve p ''public'') pth"

text \<open>The world and the headers that an outcome carries.\<close>

fun outcome_world :: "outcome \<Rightarrow> world" where
  "outcome_world (Next w rq rs) = w"
| "outcome_world (Done w rs) = w"
| "outcome_world (Fail w e rs) = w"

fun outcome_headers :: "outcome \<Rightarrow> (string \<times> string) list" where
  "outcome_headers (Next w rq rs) = headers rs"
| "outcome_headers (Done w rs) = headers rs"
| "outcome_headers (Fail w e rs) = headers rs"

text \<open>The header that opens the server to every origin; the token route's object, written out.\<close>

definition allow_any_origin :: "string \<times> string" where
  "allow_any_origin = (''Access-Control-Allow-Origin'', ''*'')"

definition token_payload :: content where
  "token_payload =
     JsonObject [(''message'', ''Use the web interface to get your JWT token''),
                 (''url'', ''http://localhost:3000'')]"

text \<open>Concrete runs: started in the script's directory, and started from elsewhere.\<close>

definition launch_here :: process where
  "launch_here = \<lparr>cwd = ''/srv/token-server'', dirname = ''/srv/token-server'', argv = [], environ = []\<rparr>"

definition launch_elsewhere :: process where
  "launch_elsewhere = \<lparr>cwd = ''/tmp'', dirname = ''/srv/token-server'', argv = [], environ = []\<rparr>"

definition disk :: "(string \<times> string) list \<Rightarrow> world" where
  "disk fs = \<lparr>files = map_of fs, console = [], busy = []\<rparr>"

definition request_for :: "http_method \<Rightarrow> string \<Rightarrow> request" where
  "request_for m pth =
     \<lparr>req_method = m, req_path = pth, req_query = [], req_origin = None,
      req_acr_headers = None, req_payload = None, req_body = None\<rparr>"

section \<open>Properties\<close>

subsection \<open>Paths\<close>






subsection \<open>Evaluation\<close>

lemma show_nat_PORT: "show_nat PORT = ''3000''"
  by code_simp



lemma root_matches: "path_matches ''/'' ''/'' = True"
  by code_simp

lemmas app_defs = handle_def app_def middleware_layers_def route_layers_def cors_def
  express_json_def express_static_def root_handler_def get_token_handler_def sendFile_def
  json_def send_def fresh_response_def not_found_def default_error_def error_status_def
  route_matches_def public_path_def allow_any_origin_def token_payload_def

lemmas example_defs = launch_here_def launch_elsewhere_def disk_def request_for_def
  static_target_def path_resolve_def path_join_def ends_with_slash_def

subsection \<open>The dispatcher\<close>


text \<open>Layers that hand the world on as they got it make a dispatch that does so too.\<close>

lemma run_frame:
  assumes "\<And>f v q r. Use f \<in> set ls \<Longrightarrow> outcome_world (f v q r) = v"
    and "\<And>m pat f v q r. Route m pat f \<in> set ls \<Longrightarrow> outcome_world (f v q r) = v"
    and "\<And>h v e q r. OnError h \<in> set ls \<Longrightarrow> outcome_world (h v e q r) = v"
  shows "snd (run ls w rq rs) = w \<and> snd (run_error ls w e rq rs) = w"
  using assms
proof (induction ls arbitrary: rq rs e)
  case Nil
  then show ?case by simp
next
  case (Cons l ls)
  have ih: "snd (run ls w rq' rs') = w \<and> snd (run_error ls w e' rq' rs') = w" for rq' rs' e'
  proof (rule Cons.IH)
    show "outcome_world (f v q r) = v" if "Use f \<in> set ls" for f v q r
      using that Cons.prems(1) by simp
    show "outcome_world (f v q r) = v" if "Route m pat f \<in> set ls" for m pat f v q r
      using that Cons.prems(2) [of m pat f] by simp
    show "outcome_world (h v e q r) = v" if "OnError h \<in> set ls" for h v e q r
      using that Cons.prems(3) by simp
  qed
  show ?case
  proof (cases l)
    case (Use f)
    then have "outcome_world (f w rq rs) = w" using Cons.prems(1) by simp
    with Use ih show ?thesis by (cases "f w rq rs") simp_all
  next
    case (Route m pat f)
    then have "outcome_world (f w rq rs) = w" using Cons.prems(2) [of m pat f] by simp
    with Route ih show ?thesis by (cases "f w rq rs") simp_all
  next
    case (OnError h)
    then have "outcome_world (h w e rq rs) = w" using Cons.prems(3) by simp
    with OnError ih show ?thesis by (cases "h w e rq rs") simp_all
  qed
qed

lemma cors_frame: "outcome_world (cors w rq rs) = w"
  by (simp add: cors_def)

lemma express_json_frame: "outcome_world (express_json w rq rs) = w"
  by (simp add: express_json_def)

lemma express_static_frame: "outcome_world (express_static p root w rq rs) = w"
  by (simp add: express_static_def Let_def split: option.splits)

lemma root_handler_frame: "outcome_world (root_handler p w rq rs) = w"
  by (simp add: root_handler_def sendFile_def split: option.splits)

lemma get_token_handler_frame: "outcome_world (get_token_handler w rq rs) = w"
  by (simp add: get_token_handler_def json_def)

lemma handle_frame: "snd (handle p w rq) = w"
  unfolding handle_def
  by (rule run_frame [THEN conjunct1])
    (auto simp add: app_def middleware_layers_def route_layers_def cors_frame express_json_frame
      express_static_frame root_handler_frame get_token_handler_frame)

lemma serve_frame: "snd (serve p w rqs) = w"
proof (induction rqs)
  case Nil
  then show ?case by simp
next
  case (Cons rq rqs)
  then show ?case
    using handle_frame [of p w rq] by (simp add: split_beta)
qed

text \<open>Layers that keep the headers already set make a dispatch that keeps them.\<close>

lemma run_keeps_header:
  assumes "\<And>f v q r. Use f \<in> set ls \<Longrightarrow> x \<in> set (headers r) \<Longrightarrow> x \<in> set (outcome_headers (f v q r))"
    and "\<And>m pat f v q r. Route m pat f \<in> set ls \<Longrightarrow> x \<in> set (headers r)
           \<Longrightarrow> x \<in> set (outcome_headers (f v q r))"
    and "\<And>h v e q r. OnError h \<in> set ls \<Longrightarrow> x \<in> set (headers r)
           \<Longrightarrow> x \<in> set (outcome_headers (h v e q r))"
    and "x \<in> set (headers rs)"
  shows "x \<in> set (headers (fst (run ls w rq rs))) \<and> x \<in> set (headers (fst (run_error ls w e rq rs)))"
  using assms
proof (induction ls arbitrary: w rq rs e)
  case Nil
  then show ?case by (simp add: not_found_def default_error_def send_def)
next
  case (Cons l ls)
  have ih: "x \<in> set (headers (fst (run ls w' rq' rs')))
      \<and> x \<in> set (headers (fst (run_error ls w' e' rq' rs')))"
    if "x \<in> set (headers rs')" for w' rq' rs' e'
  proof (rule Cons.IH)
    show "x \<in> set (outcome_headers (f v q r))" if "Use f \<in> set ls" "x \<in> set (headers r)" for f v q r
      using that Cons.prems(1) by simp
    show "x \<in> set (outcome_headers (f v q r))"
      if "Route m pat f \<in> set ls" "x \<in> set (headers r)" for m pat f v q r
      using that Cons.prems(2) [of m pat f] by simp
    show "x \<in> set (outcome_headers (h v e q r))" if "OnError h \<in> set ls" "x \<in> set (headers r)" for h v e q r
      using that Cons.prems(3) by simp
    show "x \<in> set (headers rs')" by (rule that)
  qed
  show ?case
  proof (cases l)
    case (Use f)
    then have "x \<in> set (outcome_headers (f w rq rs))" using Cons.prems(1,4) by simp
    with Use ih Cons.prems(4) show ?thesis by (cases "f w rq rs") simp_all
  next
    case (Route m pat f)
    then have "x \<in> set (outcome_headers (f w rq rs))" using Cons.prems(2) [of m pat f] Cons.prems(4) by simp
    with Route ih Cons.prems(4) show ?thesis by (cases "f w rq rs") simp_all
  next
    case (OnError h)
    then have "x \<in> set (outcome_headers (h w e rq rs))" using Cons.prems(3,4) by simp
    with OnError ih Cons.prems(4) show ?thesis by (cases "h w e rq rs") simp_all
  qed
qed

lemma cors_allows: "allow_any_origin \<in> set (outcome_headers (cors w rq rs))"
  by (simp add: cors_def allow_any_origin_def)

lemma express_json_keeps: "x \<in> set (headers rs) \<Longrightarrow> x \<in> set (outcome_headers (express_json w rq rs))"
  by (simp add: express_json_def)

lemma express_static_keeps:
  "x \<in> set (headers rs) \<Longrightarrow> x \<in> set (outcome_headers (express_static p root w rq rs))"
  by (simp add: express_static_def Let_def send_def split: option.splits)

lemma root_handler_keeps: "x \<in> set (headers rs) \<Longrightarrow> x \<in> set (outcome_headers (root_handler p w rq rs))"
  by (simp add: root_handler_def sendFile_def send_def split: option.splits)

lemma get_token_handler_keeps:
  "x \<in> set (headers rs) \<Longrightarrow> x \<in> set (outcome_headers (get_token_handler w rq rs))"
  by (simp add: get_token_handler_def json_def send_def)



subsection \<open>The token route\<close>




subsection \<open>The entry page\<close>




subsection \<open>One public directory?\<close>

text \<open>
  C3 (every static file is served from the public directory that \<^verbatim>\<open>GET /\<close> serves the
  entry file from, whatever the working directory) is not what the script does. The handler
  of \<^verbatim>\<open>GET /\<close> anchors its path at \<^verbatim>\<open>__dirname\<close>; \<^verbatim>\<open>express.static('public')\<close>
  is given a relative root, which follows the working directory. Started from \<^verbatim>\<open>/tmp\<close>
  with the script in \<^verbatim>\<open>/srv/token-server\<close>: the entry file comes from
  \<^verbatim>\<open>/srv/token-server/public\<close>, the asset \<^verbatim>\<open>/app.js\<close> from \<^verbatim>\<open>/tmp/public\<close>, and the
  \<^verbatim>\<open>app.js\<close> beside the entry file is never served (404 when it is the only one).
\<close>

theorem static_root_follows_cwd:
  "fst (handle launch_elsewhere
          (disk [(''/srv/token-server/public/index.html'', ''entry''),
                 (''/srv/token-server/public/app.js'', ''beside the entry file''),
                 (''/tmp/public/app.js'', ''under the working directory'')])
          (request_for GET ''/''))
     = \<lparr>status = 200, headers = [allow_any_origin], content = FileContent ''entry''\<rparr>
   \<and> fst (handle launch_elsewhere
          (disk [(''/srv/token-server/public/index.html'', ''entry''),
                 (''/srv/token-server/public/app.js'', ''beside the entry file''),
                 (''/tmp/public/app.js'', ''under the working directory'')])
          (request_for GET ''/app.js''))
     = \<lparr>status = 200, headers = [allow_any_origin],
        content = FileContent ''under the working directory''\<rparr>
   \<and> fst (handle launch_elsewhere
          (disk [(''/srv/token-server/public/index.html'', ''entry''),
                 (''/srv/token-server/public/app.js'', ''beside the entry file'')])
          (request_for GET ''/app.js''))
     = \<lparr>status = 404, headers = [allow_any_origin], content = DefaultPage 404\<rparr>"
  by (simp add: app_defs example_defs root_matches path_matches_def to_lower_def)

subsection \<open>Static files come before routes\<close>



subsection \<open>Nothing matches; something fails\<close>




subsection \<open>The token route does not look at the request\<close>




subsection \<open>What a run depends on\<close>



subsection \<open>Requests leave no trace\<close>

text \<open>
  C8: handling a request leaves the state as it was (no middleware and no handler writes
  to anything shared), so the answer to a request does not depend on the requests handled
  before it.
\<close>

theorem handling_keeps_state:
  "snd (handle p w rq) = w
   \<and> snd (serve p w rqs) = w
   \<and> handle p (snd (serve p w rqs)) rq = handle p w rq"
  using handle_frame serve_frame by simp

subsection \<open>The startup log\<close>

text \<open>
  C9, as stated (ten console lines), fails: the callback calls \<^verbatim>\<open>console.log\<close> nine
  times.
\<close>

theorem startup_line_count:
  "fst (start launch_here (disk [])) = Listening 3000
   \<and> length (console (snd (start launch_here (disk [])))) = 9
   \<and> length (console (snd (start launch_here (disk [])))) \<noteq> 10"
  by (simp add: start_def listen_def disk_def PORT_def startup_lines_def)

text \<open>
  C9, amended: when the server binds to port 3000, the startup callback logs exactly the
  fixed sequence of startup lines, nine console lines with the instruction steps among
  them, and nothing else; the second line carries the port, 3000.
\<close>

theorem startup_log:
  assumes "PORT \<notin> set (busy w)"
  shows "fst (start p w) = Listening 3000
       \<and> console (snd (start p w)) = console w @ startup_lines
       \<and> length startup_lines = 9
       \<and> startup_lines ! 1 =
           [CHR 0xF0, CHR 0x9F, CHR 0x93, CHR 0xB1] @ '' ''
           @ [CHR 0xD0, CHR 0x92, CHR 0xD1, CHR 0x96, CHR 0xD0, CHR 0xB4, CHR 0xD0, CHR 0xBA, CHR 0xD1, CHR 0x80,
              CHR 0xD0, CHR 0xB8, CHR 0xD0, CHR 0xB9, CHR 0xD1, CHR 0x82, CHR 0xD0, CHR 0xB5]
           @ '': http://localhost:3000''"
  using assms
  by (simp add: start_def listen_def PORT_def startup_lines_def show_nat_PORT [unfolded PORT_def])

theorem startup_log_witness:
  "PORT \<notin> set (busy (disk []))
   \<and> fst (start launch_here (disk [])) = Listening 3000
   \<and> console (snd (start launch_here (disk []))) = startup_lines"
  using startup_log [of "disk []" launch_here] by (simp add: disk_def)

subsection \<open>Cross-origin access\<close>

text \<open>
  C10: \<^verbatim>\<open>cors()\<close> comes before everything else, so every response, from either route
  and from anything else, carries \<^verbatim>\<open>Access-Control-Allow-Origin: *\<close>.
\<close>

theorem cors_on_every_response:
  "allow_any_origin \<in> set (headers (fst (handle p w rq)))"
proof -
  let ?rest = "[Use express_json, Use (express_static p ''public'')] @ route_layers p"
  have app: "app p = Use cors # ?rest"
    by (simp add: app_def middleware_layers_def)
  have first: "allow_any_origin \<in> set (outcome_headers (cors w rq fresh_response))"
    by (rule cors_allows)
  have rest: "allow_any_origin \<in> set (headers (fst (run ?rest w' rq' rs')))
      \<and> allow_any_origin \<in> set (headers (fst (run_error ?rest w' e rq' rs')))"
    if "allow_any_origin \<in> set (headers rs')" for w' rq' rs' e
    using that
    by (intro run_keeps_header)
      (auto simp add: route_layers_def express_json_keeps express_static_keeps
        root_handler_keeps get_token_handler_keeps)
  show ?thesis
    using first rest unfolding handle_def app
    by (cases "cors w rq fresh_response") simp_all
qed

end
